theory Spec2Isabelle
  imports Main
begin

section \<open>The net-stubbing event dispatcher of the driver\<close>

text \<open>
  This theory embeds \<^verbatim>\<open>packages/driver/src/cy/net-stubbing/events/index.ts\<close>:
  the closures \<^verbatim>\<open>getRoute\<close>, \<^verbatim>\<open>getRequest\<close>, \<^verbatim>\<open>emitNetEvent\<close> and
  \<^verbatim>\<open>failCurrentTest\<close> that \<^verbatim>\<open>registerEvents\<close> creates over the \<^verbatim>\<open>Cypress\<close>
  object, and the two listeners it installs with \<^verbatim>\<open>Cypress.on\<close>.

  The \<^verbatim>\<open>Cypress\<close> object is the state that all of them close over. It is passed
  explicitly, as the last argument, and returned updated by whatever changes it.
\<close>

subsection \<open>Thrown values, promises and computations\<close>

text \<open>
  Anything can be thrown, and a promise can be rejected with anything: the type
  annotation \<^verbatim>\<open>err: Error\<close> is gone at run time. A thrown value is an error object
  or a primitive (a string, a number, \<^verbatim>\<open>undefined\<close>, \<^verbatim>\<open>null\<close>), given by its text.
  The only error the code of this file raises by itself is the \<^verbatim>\<open>TypeError\<close> of the
  runtime; whatever else is thrown is \<open>Thrown\<close> with its message. \<^verbatim>\<open>fromSpec\<close> is
  the property that \<^verbatim>\<open>failCurrentTest\<close> assigns; \<open>frozen\<close> says that the object
  refuses the assignment (it was frozen, or made non-extensible).
\<close>

datatype exn_kind = TypeError | Thrown string

record js_error =
  kind :: exn_kind
  fromSpec :: bool
  frozen :: bool

datatype thrown = ErrorObject js_error | Primitive string

definition type_error :: thrown where
  "type_error = ErrorObject \<lparr>kind = TypeError, fromSpec = False, frozen = False\<rparr>"

text \<open>
  \<open>taggable\<close>: the assignment \<^verbatim>\<open>err.fromSpec = true\<close> succeeds. The file is a
  module, hence strict code, where assigning a property of a primitive, of
  \<^verbatim>\<open>undefined\<close> or \<^verbatim>\<open>null\<close>, or a new property of a frozen object raises a
  \<^verbatim>\<open>TypeError\<close>. \<open>tagged\<close> is the value after the assignment.
\<close>

fun taggable :: "thrown \<Rightarrow> bool" where
  "taggable (ErrorObject e) = (\<not> frozen e)"
| "taggable (Primitive v) = False"

fun tagged :: "thrown \<Rightarrow> thrown" where
  "tagged (ErrorObject e) = ErrorObject (e\<lparr>fromSpec := True\<rparr>)"
| "tagged (Primitive v) = Primitive v"

fun is_tagged :: "thrown \<Rightarrow> bool" where
  "is_tagged (ErrorObject e) = fromSpec e"
| "is_tagged (Primitive v) = False"

text \<open>
  A promise is described by how it settles: fulfilled, rejected with a value, or not
  at all. A handler returns \<^verbatim>\<open>Promise<void> | void\<close>; \<open>Other\<close> is any other value
  that is not a promise.
\<close>

datatype promise = Fulfilled | Rejected thrown | Pending

datatype ret = Void | Other | Promise promise

text \<open>
  A piece of code that runs on the state \<open>'w\<close> either throws (\<open>Inl\<close>) or returns a
  value (\<open>Inr\<close>), and leaves a state behind in both cases.
\<close>

type_synonym ('w, 'r) js = "'w \<Rightarrow> (thrown + 'r) \<times> 'w"

subsection \<open>Reading a property of a plain object\<close>

text \<open>
  The registry \<^verbatim>\<open>state('routes')\<close>, the ledger \<^verbatim>\<open>route.requests\<close> and the table
  \<^verbatim>\<open>netEventHandlers\<close> are plain objects used as dictionaries, and \<^verbatim>\<open>obj[key]\<close>
  reads through the prototype chain: the object's own property if it has one, else the
  member of \<^verbatim>\<open>Object.prototype\<close> of that name if there is one, else \<^verbatim>\<open>undefined\<close>.
  \<open>object_prototype\<close> lists the names of the members of \<^verbatim>\<open>Object.prototype\<close> of
  the runtime.
\<close>

definition object_prototype :: "string list" where
  "object_prototype =
     [''constructor'', ''hasOwnProperty'', ''isPrototypeOf'', ''propertyIsEnumerable'',
      ''toLocaleString'', ''toString'', ''valueOf'', ''__proto__'',
      ''__defineGetter__'', ''__defineSetter__'', ''__lookupGetter__'',
      ''__lookupSetter__'']"

datatype 'v property = Undefined | Own 'v | Inherited string

definition get_prop :: "(string \<rightharpoonup> 'v) \<Rightarrow> string \<Rightarrow> 'v property" where
  "get_prop obj key =
     (case obj key of
        Some v \<Rightarrow> Own v
      | None \<Rightarrow> if key \<in> set object_prototype then Inherited key else Undefined)"

text \<open>
  Calling an inherited member as the dispatcher calls a handler, \<^verbatim>\<open>f(Cypress, frame,
  opts)\<close>, that is with \<^verbatim>\<open>this\<close> undefined and an object as first argument:
  \<^verbatim>\<open>toString\<close> returns a string and \<^verbatim>\<open>constructor\<close> (which is \<^verbatim>\<open>Object\<close>) returns
  its argument; \<^verbatim>\<open>__proto__\<close> is not a function, and every other member converts
  \<^verbatim>\<open>this\<close> to an object first; those raise a \<^verbatim>\<open>TypeError\<close>.
\<close>

definition call_inherited :: "string \<Rightarrow> ('w, ret) js" where
  "call_inherited member w =
     (if member \<in> {''toString'', ''constructor''} then (Inr Other, w)
      else (Inl type_error, w))"

subsection \<open>Routes, requests and the state of the driver\<close>

text \<open>
  Objects are held by reference. There is one store per type of object, a function
  from references to the object's content, and \<open>next_ref\<close> is the first reference
  that no object has been allocated at. The declarations of \<^verbatim>\<open>Route\<close> and
  \<^verbatim>\<open>Request\<close> are in \<^verbatim>\<open>../types\<close>; this file only reads \<^verbatim>\<open>route.requests\<close>, the
  request ledger, so the other properties of a route are a value of type \<open>'a\<close> and a
  request is a value of type \<open>'q\<close>. A registry and a ledger are given by their own
  properties.
\<close>

type_synonym ref = nat

record 'a route =
  requests :: ref
  attrs :: 'a

text \<open>
  Modelled from the spec: \<^verbatim>\<open>Cypress.state\<close>, \<^verbatim>\<open>Cypress.backend\<close>, \<^verbatim>\<open>Cypress.cy.fail\<close>
  and the scheduler (\<^verbatim>\<open>setImmediate\<close>, the promise library) are used by this file but
  defined outside it.
  \<^item> \<open>state\<close> is the driver-wide store. \<^verbatim>\<open>state(k)\<close> reads key \<open>k\<close> and gives
    \<^verbatim>\<open>undefined\<close> (\<open>None\<close>) for a key that was never set; \<^verbatim>\<open>state(k, v)\<close> sets it.
  \<^item> \<open>outbox\<close> lists the calls of \<^verbatim>\<open>Cypress.backend\<close>, oldest first, as
    (channel, event name, frame); \<open>host\<close> says how the host settles the promise of
    the \<open>n\<close>-th call.
  \<^item> \<open>chains\<close> lists the promises that have \<^verbatim>\<open>.catch(failCurrentTest)\<close> attached and
    whose reaction has not run yet; \<open>unhandled\<close> lists what the chains that ended
    rejected were rejected with.
  \<^item> \<open>immediates\<close> is the queue of \<^verbatim>\<open>setImmediate\<close>. The only callback this file
    queues is \<^verbatim>\<open>() => Cypress.cy.fail(err)\<close>, so a task is its error.
  \<^item> \<open>failed\<close> lists the errors \<^verbatim>\<open>Cypress.cy.fail\<close> was called with.
\<close>

record ('a, 'q, 'f) cypress =
  state :: "string \<rightharpoonup> ref"
  registry_of :: "ref \<Rightarrow> (string \<rightharpoonup> ref)"
  route_of :: "ref \<Rightarrow> 'a route"
  ledger_of :: "ref \<Rightarrow> (string \<rightharpoonup> ref)"
  request_of :: "ref \<Rightarrow> 'q"
  next_ref :: ref
  outbox :: "(string \<times> string \<times> 'f) list"
  host :: "nat \<Rightarrow> promise"
  chains :: "promise list"
  unhandled :: "thrown list"
  immediates :: "thrown list"
  failed :: "thrown list"

text \<open>
  The registry the store points at has been allocated: its reference is below
  \<open>next_ref\<close>. This holds for a new driver and after every reset, and nothing in this
  file breaks it (lemmas below).
\<close>

definition registry_allocated :: "('a, 'q, 'f) cypress \<Rightarrow> bool" where
  "registry_allocated w =
     (case state w ''routes'' of None \<Rightarrow> True | Some registry \<Rightarrow> registry < next_ref w)"

subsection \<open>The closures of registerEvents\<close>

text \<open>
  \<^verbatim>\<open>return state('routes')[routeHandlerId]\<close>: reading a property of \<^verbatim>\<open>undefined\<close>
  raises a \<^verbatim>\<open>TypeError\<close>; otherwise the result is what the read gives, a route of
  the registry, an inherited member, or \<^verbatim>\<open>undefined\<close>.
\<close>

definition getRoute :: "string \<Rightarrow> ('a, 'q, 'f) cypress \<Rightarrow> thrown + ref property" where
  "getRoute routeHandlerId w =
     (case state w ''routes'' of
        None \<Rightarrow> Inl type_error
      | Some registry \<Rightarrow> Inr (get_prop (registry_of w registry) routeHandlerId))"

text \<open>
  \<^verbatim>\<open>if (route)\<close> holds for a route and for an inherited member alike, both are
  objects. A route has its ledger in \<^verbatim>\<open>requests\<close>; an inherited member has no such
  property, so \<^verbatim>\<open>route.requests\<close> is \<^verbatim>\<open>undefined\<close> and reading \<^verbatim>\<open>[requestId]\<close> of
  it raises a \<^verbatim>\<open>TypeError\<close>.
\<close>

definition getRequest :: "string \<Rightarrow> string \<Rightarrow> ('a, 'q, 'f) cypress \<Rightarrow> thrown + ref property" where
  "getRequest routeHandlerId requestId w =
     (case getRoute routeHandlerId w of
        Inl e \<Rightarrow> Inl e
      | Inr Undefined \<Rightarrow> Inr Undefined
      | Inr (Own route) \<Rightarrow>
          Inr (get_prop (ledger_of w (requests (route_of w route))) requestId)
      | Inr (Inherited member) \<Rightarrow> Inl type_error)"

text \<open>
  \<^verbatim>\<open>Cypress.backend(channel, eventName, frame)\<close> sends one message to the host and
  returns the promise of the round-trip.
\<close>

definition backend :: "string \<Rightarrow> string \<Rightarrow> 'f \<Rightarrow> ('a, 'q, 'f) cypress \<Rightarrow> promise \<times> ('a, 'q, 'f) cypress" where
  "backend channel eventName frame w =
     (host w (length (outbox w)), w\<lparr>outbox := outbox w @ [(channel, eventName, frame)]\<rparr>)"

definition emitNetEvent :: "string \<Rightarrow> 'f \<Rightarrow> ('a, 'q, 'f) cypress \<Rightarrow> promise \<times> ('a, 'q, 'f) cypress" where
  "emitNetEvent eventName frame w = backend ''net'' eventName frame w"

text \<open>
  \<^verbatim>\<open>err.fromSpec = true\<close>, then \<^verbatim>\<open>setImmediate(() => Cypress.cy.fail(err))\<close>. Where
  the assignment raises, the function is left before anything is queued. Otherwise the
  callback is queued, not called, and the function returns \<^verbatim>\<open>undefined\<close>.
\<close>

definition failCurrentTest :: "thrown \<Rightarrow> (('a, 'q, 'f) cypress, unit) js" where
  "failCurrentTest err w =
     (case err of
        Primitive v \<Rightarrow> (Inl type_error, w)
      | ErrorObject e \<Rightarrow>
          if frozen e then (Inl type_error, w)
          else (let err' = ErrorObject (e\<lparr>fromSpec := True\<rparr>)
                in (Inr (), w\<lparr>immediates := immediates w @ [err']\<rparr>)))"

text \<open>
  One turn of the \<^verbatim>\<open>setImmediate\<close> queue runs its oldest callback, which calls
  \<^verbatim>\<open>Cypress.cy.fail\<close>; \<open>run_immediates\<close> runs the queue until it is empty.
\<close>

definition run_immediate :: "('a, 'q, 'f) cypress \<Rightarrow> ('a, 'q, 'f) cypress" where
  "run_immediate w =
     (case immediates w of
        [] \<Rightarrow> w
      | err # rest \<Rightarrow> w\<lparr>immediates := rest, failed := failed w @ [err]\<rparr>)"

definition run_immediates :: "('a, 'q, 'f) cypress \<Rightarrow> ('a, 'q, 'f) cypress" where
  "run_immediates w = ((run_immediate ^^ length (immediates w)) w)"

subsection \<open>The listeners\<close>

text \<open>
  The listener of \<^verbatim>\<open>'test:before:run'\<close>: \<^verbatim>\<open>state('routes', {})\<close>. The object literal
  allocates a new registry with no property of its own; the store is pointed at it.
\<close>

definition test_before_run :: "('a, 'q, 'f) cypress \<Rightarrow> ('a, 'q, 'f) cypress" where
  "test_before_run w =
     (let registry = next_ref w
      in w\<lparr>registry_of := (registry_of w)(registry := Map.empty),
           next_ref := Suc registry,
           state := (state w)(''routes'' \<mapsto> registry)\<rparr>)"

text \<open>
  The capability bundle a handler is called with, and the handler itself: it takes the
  frame and the bundle, runs on the \<^verbatim>\<open>Cypress\<close> object, and throws or returns. The
  three handlers are imported from sibling modules, so they are parameters here. The
  state a handler leaves behind includes what it does until the promise it returned
  has settled.
\<close>

record ('w, 'f) opts =
  opt_getRequest :: "string \<Rightarrow> string \<Rightarrow> 'w \<Rightarrow> thrown + ref property"
  opt_getRoute :: "string \<Rightarrow> 'w \<Rightarrow> thrown + ref property"
  opt_emitNetEvent :: "string \<Rightarrow> 'f \<Rightarrow> 'w \<Rightarrow> promise \<times> 'w"
  opt_failCurrentTest :: "thrown \<Rightarrow> ('w, unit) js"

type_synonym ('w, 'f) handlerFn = "'f \<Rightarrow> ('w, 'f) opts \<Rightarrow> ('w, ret) js"

record ('w, 'f) handlers =
  onRequestReceived :: "('w, 'f) handlerFn"
  onResponseReceived :: "('w, 'f) handlerFn"
  onRequestComplete :: "('w, 'f) handlerFn"

text \<open>The own properties of the table of handlers.\<close>

definition netEventHandlers :: "('w, 'f) handlers \<Rightarrow> (string \<rightharpoonup> ('w, 'f) handlerFn)" where
  "netEventHandlers H =
     [''http:request:received'' \<mapsto> onRequestReceived H,
      ''http:response:received'' \<mapsto> onResponseReceived H,
      ''http:request:complete'' \<mapsto> onRequestComplete H]"

definition capabilities :: "(('a, 'q, 'f) cypress, 'f) opts" where
  "capabilities =
     \<lparr>opt_getRequest = getRequest, opt_getRoute = getRoute,
      opt_emitNetEvent = emitNetEvent, opt_failCurrentTest = failCurrentTest\<rparr>"

text \<open>
  The function given to \<^verbatim>\<open>Bluebird.try\<close>: \<^verbatim>\<open>netEventHandlers[eventName]\<close>, then the
  call. A name that is neither in the table nor inherited gives \<^verbatim>\<open>undefined\<close>, and
  calling it raises a \<^verbatim>\<open>TypeError\<close>; an inherited member is called as it is.
\<close>

definition call_handler ::
  "(('a, 'q, 'f) cypress, 'f) handlers \<Rightarrow> string \<Rightarrow> 'f \<Rightarrow> (('a, 'q, 'f) cypress, ret) js" where
  "call_handler H eventName frame w =
     (case get_prop (netEventHandlers H) eventName of
        Undefined \<Rightarrow> (Inl type_error, w)
      | Own handler \<Rightarrow> handler frame capabilities w
      | Inherited member \<Rightarrow> call_inherited member w)"

text \<open>
  \<^verbatim>\<open>Bluebird.try(fn)\<close> calls \<open>fn\<close> at once and gives a promise: rejected with what
  \<open>fn\<close> threw, following the promise \<open>fn\<close> returned, fulfilled otherwise.
\<close>

definition bluebird_try :: "('w, ret) js \<Rightarrow> 'w \<Rightarrow> promise \<times> 'w" where
  "bluebird_try fn w =
     (case fn w of
        (Inl e, w') \<Rightarrow> (Rejected e, w')
      | (Inr Void, w') \<Rightarrow> (Fulfilled, w')
      | (Inr Other, w') \<Rightarrow> (Fulfilled, w')
      | (Inr (Promise p), w') \<Rightarrow> (p, w'))"

text \<open>
  The listener of \<^verbatim>\<open>'net:event'\<close>. Its one statement builds the chain
  \<^verbatim>\<open>Bluebird.try(...).catch(failCurrentTest)\<close> and drops it; the reaction of
  \<^verbatim>\<open>.catch\<close> runs later, so the chain is left in \<open>chains\<close>. The result is \<open>Inl\<close>
  where the listener would throw to the emitter.
\<close>

definition net_event_listener ::
  "(('a, 'q, 'f) cypress, 'f) handlers \<Rightarrow> string \<Rightarrow> 'f \<Rightarrow> ('a, 'q, 'f) cypress
     \<Rightarrow> thrown + ('a, 'q, 'f) cypress" where
  "net_event_listener H eventName frame w =
     (case bluebird_try (call_handler H eventName frame) w of
        (p, w') \<Rightarrow> Inr (w'\<lparr>chains := chains w' @ [p]\<rparr>))"

text \<open>
  The reaction of \<^verbatim>\<open>.catch(failCurrentTest)\<close> on one chain: a rejection calls
  \<^verbatim>\<open>failCurrentTest\<close> with the value. Where that call throws, the chain ends
  rejected with nothing attached to it, an unhandled rejection.
\<close>

definition catch_reaction :: "promise \<Rightarrow> ('a, 'q, 'f) cypress \<Rightarrow> ('a, 'q, 'f) cypress" where
  "catch_reaction p w =
     (case p of
        Rejected e \<Rightarrow>
          (case failCurrentTest e w of
             (Inl e', w') \<Rightarrow> w'\<lparr>unhandled := unhandled w' @ [e']\<rparr>
           | (Inr _, w') \<Rightarrow> w')
      | Fulfilled \<Rightarrow> w
      | Pending \<Rightarrow> w)"

definition run_chains :: "('a, 'q, 'f) cypress \<Rightarrow> ('a, 'q, 'f) cypress" where
  "run_chains w = fold catch_reaction (chains w) (w\<lparr>chains := []\<rparr>)"

subsection \<open>Concrete drivers and handlers\<close>

text \<open>
  \<open>new_driver\<close> is the driver right after \<^verbatim>\<open>registerEvents\<close>: nothing has been
  stored under \<^verbatim>\<open>'routes'\<close> and no object has been allocated. \<open>example_driver\<close> is a
  driver in the middle of a test: the registry (object 0) has the route
  \<^verbatim>\<open>route1\<close> (object 1), whose ledger (object 2) has the request \<^verbatim>\<open>request1\<close>
  (object 3). \<open>offline_driver\<close> is the same with a host that rejects every round-trip.
\<close>

definition new_driver :: "(string, string, string) cypress" where
  "new_driver =
     \<lparr>state = Map.empty,
      registry_of = (\<lambda>_. Map.empty),
      route_of = (\<lambda>_. \<lparr>requests = 0, attrs = []\<rparr>),
      ledger_of = (\<lambda>_. Map.empty),
      request_of = (\<lambda>_. []),
      next_ref = 0,
      outbox = [], host = (\<lambda>_. Fulfilled), chains = [], unhandled = [],
      immediates = [], failed = []\<rparr>"

definition example_driver :: "(string, string, string) cypress" where
  "example_driver =
     \<lparr>state = [''routes'' \<mapsto> 0],
      registry_of = (\<lambda>_. Map.empty)(0 := [''route1'' \<mapsto> 1]),
      route_of = (\<lambda>_. \<lparr>requests = 2, attrs = ''GET /users''\<rparr>),
      ledger_of = (\<lambda>_. Map.empty)(2 := [''request1'' \<mapsto> 3]),
      request_of = (\<lambda>_. ''received''),
      next_ref = 4,
      outbox = [], host = (\<lambda>_. Fulfilled), chains = [], unhandled = [],
      immediates = [], failed = []\<rparr>"

definition socket_closed :: thrown where
  "socket_closed = ErrorObject \<lparr>kind = Thrown ''socket closed'', fromSpec = False, frozen = False\<rparr>"

definition callback_failed :: thrown where
  "callback_failed =
     ErrorObject \<lparr>kind = Thrown ''callback failed'', fromSpec = False, frozen = False\<rparr>"

definition frozen_failure :: thrown where
  "frozen_failure =
     ErrorObject \<lparr>kind = Thrown ''callback failed'', fromSpec = False, frozen = True\<rparr>"

definition offline_driver :: "(string, string, string) cypress" where
  "offline_driver = example_driver\<lparr>host := (\<lambda>_. Rejected socket_closed)\<rparr>"

text \<open>
  Handlers: one answers the host and returns the promise of the round-trip, one
  throws an error object, one returns nothing, one throws a string.
\<close>

definition emitting_handler :: "((string, string, string) cypress, string) handlerFn" where
  "emitting_handler frame opts w =
     (case opt_emitNetEvent opts ''http:request:continue'' frame w of
        (p, w') \<Rightarrow> (Inr (Promise p), w'))"

definition throwing_handler :: "((string, string, string) cypress, string) handlerFn" where
  "throwing_handler frame opts w = (Inl callback_failed, w)"

definition silent_handler :: "((string, string, string) cypress, string) handlerFn" where
  "silent_handler frame opts w = (Inr Void, w)"

definition string_throwing_handler :: "((string, string, string) cypress, string) handlerFn" where
  "string_throwing_handler frame opts w = (Inl (Primitive ''boom''), w)"

definition example_handlers :: "((string, string, string) cypress, string) handlers" where
  "example_handlers =
     \<lparr>onRequestReceived = emitting_handler,
      onResponseReceived = throwing_handler,
      onRequestComplete = silent_handler\<rparr>"

definition careless_handlers :: "((string, string, string) cypress, string) handlers" where
  "careless_handlers =
     \<lparr>onRequestReceived = emitting_handler,
      onResponseReceived = string_throwing_handler,
      onRequestComplete = silent_handler\<rparr>"

section \<open>Helper lemmas\<close>

subsection \<open>Reading properties\<close>

lemma get_prop_own: "obj key = Some v \<Longrightarrow> get_prop obj key = Own v"
  by (simp add: get_prop_def)

lemma get_prop_inherited:
  "obj key = None \<Longrightarrow> key \<in> set object_prototype \<Longrightarrow> get_prop obj key = Inherited key"
  by (simp add: get_prop_def)

lemma get_prop_undefined:
  "obj key = None \<Longrightarrow> key \<notin> set object_prototype \<Longrightarrow> get_prop obj key = Undefined"
  by (simp add: get_prop_def)

lemma get_prop_empty:
  "get_prop Map.empty key = (if key \<in> set object_prototype then Inherited key else Undefined)"
  by (simp add: get_prop_def)

lemma inherited_names:
  "''toString'' \<in> set object_prototype"
  "''constructor'' \<in> set object_prototype"
  "''hasOwnProperty'' \<in> set object_prototype"
  "''valueOf'' \<in> set object_prototype"
  by (simp_all add: object_prototype_def)

lemma plain_names:
  "''route1'' \<notin> set object_prototype"
  "''route2'' \<notin> set object_prototype"
  "''request1'' \<notin> set object_prototype"
  "''request2'' \<notin> set object_prototype"
  "''http:request:aborted'' \<notin> set object_prototype"
  by (simp_all add: object_prototype_def)

lemma handler_names_not_inherited:
  "''http:request:received'' \<notin> set object_prototype"
  "''http:response:received'' \<notin> set object_prototype"
  "''http:request:complete'' \<notin> set object_prototype"
  by (simp_all add: object_prototype_def)

lemma unknown_event_lookup:
  "eventName \<notin> {''http:request:received'', ''http:response:received'',
      ''http:request:complete''}
     \<Longrightarrow> netEventHandlers H eventName = None"
  by (simp add: netEventHandlers_def)

lemma call_handler_unknown:
  assumes "eventName \<notin> {''http:request:received'', ''http:response:received'',
             ''http:request:complete'', ''toString'', ''constructor''}"
  shows "call_handler H eventName frame w = (Inl type_error, w)"
proof -
  have none: "netEventHandlers H eventName = None"
    using assms by (simp add: netEventHandlers_def)
  have throws: "call_inherited eventName w = (Inl type_error, w)"
    using assms by (simp add: call_inherited_def)
  show ?thesis
  proof (cases "eventName \<in> set object_prototype")
    case True
    with none throws show ?thesis
      by (simp add: call_handler_def get_prop_inherited)
  next
    case False
    with none show ?thesis
      by (simp add: call_handler_def get_prop_undefined)
  qed
qed

lemma call_handler_returning_member:
  assumes "eventName \<in> {''toString'', ''constructor''}"
  shows "call_handler H eventName frame w = (Inr Other, w)"
proof -
  have none: "netEventHandlers H eventName = None"
    using assms by (auto simp: netEventHandlers_def)
  have inh: "eventName \<in> set object_prototype"
    using assms by (auto simp: object_prototype_def)
  have returns: "call_inherited eventName w = (Inr Other, w)"
    using assms by (simp add: call_inherited_def)
  from none inh returns show ?thesis
    by (simp add: call_handler_def get_prop_inherited)
qed

subsection \<open>Failing the test\<close>

lemma taggable_type_error: "taggable type_error" "tagged type_error \<noteq> type_error"
  by (simp_all add: type_error_def)

lemma is_tagged_tagged: "taggable err \<Longrightarrow> is_tagged (tagged err)"
  by (cases err) simp_all

lemma failCurrentTest_taggable:
  "taggable err \<Longrightarrow>
     failCurrentTest err w = (Inr (), w\<lparr>immediates := immediates w @ [tagged err]\<rparr>)"
  by (cases err) (simp_all add: failCurrentTest_def)

lemma failCurrentTest_untaggable:
  "\<not> taggable err \<Longrightarrow> failCurrentTest err w = (Inl type_error, w)"
  by (cases err) (simp_all add: failCurrentTest_def)

lemma catch_reaction_taggable:
  "taggable e \<Longrightarrow>
     catch_reaction (Rejected e) w = w\<lparr>immediates := immediates w @ [tagged e]\<rparr>"
  by (simp add: catch_reaction_def failCurrentTest_taggable)

lemma catch_reaction_untaggable:
  "\<not> taggable e \<Longrightarrow>
     catch_reaction (Rejected e) w = w\<lparr>unhandled := unhandled w @ [type_error]\<rparr>"
  by (simp add: catch_reaction_def failCurrentTest_untaggable)

lemma run_immediate_steps:
  "immediates w = xs @ ys \<Longrightarrow>
     immediates ((run_immediate ^^ length xs) w) = ys \<and>
     failed ((run_immediate ^^ length xs) w) = failed w @ xs"
proof (induction xs arbitrary: w)
  case Nil
  then show ?case by simp
next
  case (Cons x xs)
  have "immediates (run_immediate w) = xs @ ys" "failed (run_immediate w) = failed w @ [x]"
    using Cons.prems by (simp_all add: run_immediate_def)
  with Cons.IH [of "run_immediate w"] show ?case
    by (simp add: funpow_swap1)
qed

lemma failed_run_immediates: "failed (run_immediates w) = failed w @ immediates w"
  using run_immediate_steps [of w "immediates w" "[]"] by (simp add: run_immediates_def)

lemma immediates_run_immediates: "immediates (run_immediates w) = []"
  using run_immediate_steps [of w "immediates w" "[]"] by (simp add: run_immediates_def)

subsection \<open>The reactions\<close>

lemma run_chains_snoc:
  "run_chains (w\<lparr>chains := chains w @ [p]\<rparr>) = catch_reaction p (run_chains w)"
  by (simp add: run_chains_def)

lemma run_chains_idle: "chains w = [] \<Longrightarrow> run_chains w = w"
  by (simp add: run_chains_def)

text \<open>The reactions touch nothing but the queues.\<close>

lemma catch_reaction_frame:
  "state (catch_reaction p w) = state w"
  "registry_of (catch_reaction p w) = registry_of w"
  "route_of (catch_reaction p w) = route_of w"
  "ledger_of (catch_reaction p w) = ledger_of w"
  "request_of (catch_reaction p w) = request_of w"
  "next_ref (catch_reaction p w) = next_ref w"
  "outbox (catch_reaction p w) = outbox w"
  "failed (catch_reaction p w) = failed w"
proof -
  consider "p = Fulfilled" | "p = Pending" | e where "p = Rejected e" "taggable e"
    | e where "p = Rejected e" "\<not> taggable e"
    by (cases p) auto
  then have "state (catch_reaction p w) = state w \<and>
    registry_of (catch_reaction p w) = registry_of w \<and>
    route_of (catch_reaction p w) = route_of w \<and>
    ledger_of (catch_reaction p w) = ledger_of w \<and>
    request_of (catch_reaction p w) = request_of w \<and>
    next_ref (catch_reaction p w) = next_ref w \<and>
    outbox (catch_reaction p w) = outbox w \<and>
    failed (catch_reaction p w) = failed w"
  proof cases
    case 1
    then show ?thesis by (simp add: catch_reaction_def)
  next
    case 2
    then show ?thesis by (simp add: catch_reaction_def)
  next
    case 3
    then show ?thesis by (simp add: catch_reaction_taggable)
  next
    case 4
    then show ?thesis by (simp add: catch_reaction_untaggable)
  qed
  then show "state (catch_reaction p w) = state w"
    "registry_of (catch_reaction p w) = registry_of w"
    "route_of (catch_reaction p w) = route_of w"
    "ledger_of (catch_reaction p w) = ledger_of w"
    "request_of (catch_reaction p w) = request_of w"
    "next_ref (catch_reaction p w) = next_ref w"
    "outbox (catch_reaction p w) = outbox w"
    "failed (catch_reaction p w) = failed w"
    by simp_all
qed

lemma fold_catch_reaction_frame:
  "state (fold catch_reaction ps w) = state w \<and>
   registry_of (fold catch_reaction ps w) = registry_of w \<and>
   route_of (fold catch_reaction ps w) = route_of w \<and>
   ledger_of (fold catch_reaction ps w) = ledger_of w \<and>
   request_of (fold catch_reaction ps w) = request_of w \<and>
   next_ref (fold catch_reaction ps w) = next_ref w \<and>
   outbox (fold catch_reaction ps w) = outbox w \<and>
   failed (fold catch_reaction ps w) = failed w"
proof (induction ps arbitrary: w)
  case Nil
  show ?case by simp
next
  case (Cons p ps)
  from Cons.IH [of "catch_reaction p w"] show ?case
    by (simp add: catch_reaction_frame)
qed

lemma run_chains_frame:
  "state (run_chains w) = state w"
  "registry_of (run_chains w) = registry_of w"
  "route_of (run_chains w) = route_of w"
  "ledger_of (run_chains w) = ledger_of w"
  "request_of (run_chains w) = request_of w"
  "next_ref (run_chains w) = next_ref w"
  "outbox (run_chains w) = outbox w"
  "failed (run_chains w) = failed w"
  using fold_catch_reaction_frame [of "chains w" "w\<lparr>chains := []\<rparr>"]
  by (simp_all add: run_chains_def)

subsection \<open>The registry in the store is an allocated object\<close>

lemma registry_allocated_new_driver: "registry_allocated new_driver"
  by (simp add: registry_allocated_def new_driver_def)

lemma registry_allocated_reset: "registry_allocated (test_before_run w)"
  by (simp add: registry_allocated_def test_before_run_def Let_def)

lemma registry_allocated_failCurrentTest:
  "registry_allocated w \<Longrightarrow> registry_allocated (snd (failCurrentTest err w))"
  by (cases "taggable err")
     (simp_all add: failCurrentTest_taggable failCurrentTest_untaggable registry_allocated_def
        split: option.splits)

lemma registry_allocated_emitNetEvent:
  "registry_allocated w \<Longrightarrow> registry_allocated (snd (emitNetEvent eventName frame w))"
  by (simp add: emitNetEvent_def backend_def registry_allocated_def split: option.splits)

lemma registry_allocated_run_chains:
  "registry_allocated w \<Longrightarrow> registry_allocated (run_chains w)"
  by (simp add: registry_allocated_def run_chains_frame split: option.splits)

lemma registry_allocated_run_immediate:
  "registry_allocated w \<Longrightarrow> registry_allocated (run_immediate w)"
  by (simp add: registry_allocated_def run_immediate_def split: list.splits option.splits)

lemma store_registry_below_next_ref:
  "registry_allocated w \<Longrightarrow> state w ''routes'' = Some registry \<Longrightarrow> registry < next_ref w"
  by (simp add: registry_allocated_def)

subsection \<open>The concrete drivers\<close>

lemma example_driver_fields:
  "state example_driver ''routes'' = Some 0"
  "registry_of example_driver 0 ''route1'' = Some 1"
  "registry_of example_driver 0 ''route2'' = None"
  "registry_of example_driver 0 ''toString'' = None"
  "registry_of example_driver 0 ''hasOwnProperty'' = None"
  "requests (route_of example_driver route) = 2"
  "ledger_of example_driver 2 ''request1'' = Some 3"
  "ledger_of example_driver 2 ''request2'' = None"
  "ledger_of example_driver 2 ''constructor'' = None"
  "next_ref example_driver = 4"
  "chains example_driver = []"
  "immediates example_driver = []"
  "failed example_driver = []"
  "unhandled example_driver = []"
  "outbox example_driver = []"
  by (simp_all add: example_driver_def)

lemma registry_allocated_example_driver: "registry_allocated example_driver"
  by (simp add: registry_allocated_def example_driver_def)

section \<open>The claims\<close>

subsection \<open>Lookups\<close>

text \<open>
  C1, as stated, fails: for a route identifier that is not registered \<^verbatim>\<open>getRoute\<close> and
  \<^verbatim>\<open>getRequest\<close> are claimed to return absent without raising in every state,
  the state before any test-boundary reset included. On a driver where no reset has
  run, \<^verbatim>\<open>state('routes')\<close> is \<^verbatim>\<open>undefined\<close> and both raise a \<^verbatim>\<open>TypeError\<close>. On a
  driver with a registry, \<^verbatim>\<open>toString\<close> is not registered, yet \<^verbatim>\<open>getRoute\<close> returns
  the member inherited from \<^verbatim>\<open>Object.prototype\<close> and \<^verbatim>\<open>getRequest\<close> raises; and for
  the registered route \<^verbatim>\<open>route1\<close>, whose ledger has no request \<^verbatim>\<open>constructor\<close>,
  \<^verbatim>\<open>getRequest\<close> returns the inherited member.
\<close>

theorem lookup_of_unregistered_not_absent:
  "state new_driver ''routes'' = None \<and>
   getRoute ''route1'' new_driver = Inl type_error \<and>
   getRequest ''route1'' ''request1'' new_driver = Inl type_error \<and>
   registry_of example_driver 0 ''toString'' = None \<and>
   getRoute ''toString'' example_driver = Inr (Inherited ''toString'') \<and>
   getRequest ''toString'' ''request1'' example_driver = Inl type_error \<and>
   ledger_of example_driver 2 ''constructor'' = None \<and>
   getRequest ''route1'' ''constructor'' example_driver = Inr (Inherited ''constructor'')"
  by (simp add: getRoute_def getRequest_def new_driver_def example_driver_fields
      get_prop_own get_prop_inherited inherited_names)

text \<open>
  C1, amended: once \<^verbatim>\<open>state('routes')\<close> holds a registry (as it does after any
  test-boundary reset), \<^verbatim>\<open>getRoute\<close> does not raise, and for every route identifier
  that is neither registered nor the name of a member inherited from
  \<^verbatim>\<open>Object.prototype\<close> both \<^verbatim>\<open>getRoute\<close> and \<^verbatim>\<open>getRequest\<close> return absent. For a
  registered route and a request identifier that is neither in its ledger nor such a
  name, \<^verbatim>\<open>getRequest\<close> returns absent. For an unregistered identifier that names an
  inherited member, \<^verbatim>\<open>getRoute\<close> returns the member and \<^verbatim>\<open>getRequest\<close> raises a
  \<^verbatim>\<open>TypeError\<close>; for a registered route and a request identifier that names one and
  is not in the ledger, \<^verbatim>\<open>getRequest\<close> returns the member. While
  \<^verbatim>\<open>state('routes')\<close> is unset, both raise a \<^verbatim>\<open>TypeError\<close>.
\<close>

theorem lookups_of_unregistered:
  "(state w ''routes'' = None \<longrightarrow>
      getRoute routeHandlerId w = Inl type_error \<and>
      getRequest routeHandlerId requestId w = Inl type_error) \<and>
   (\<forall>registry. state w ''routes'' = Some registry \<longrightarrow>
      (\<exists>r. getRoute routeHandlerId w = Inr r) \<and>
      (registry_of w registry routeHandlerId = None \<longrightarrow>
         routeHandlerId \<notin> set object_prototype \<longrightarrow>
         getRoute routeHandlerId w = Inr Undefined \<and>
         getRequest routeHandlerId requestId w = Inr Undefined) \<and>
      (registry_of w registry routeHandlerId = None \<longrightarrow>
         routeHandlerId \<in> set object_prototype \<longrightarrow>
         getRoute routeHandlerId w = Inr (Inherited routeHandlerId) \<and>
         getRequest routeHandlerId requestId w = Inl type_error) \<and>
      (\<forall>route. registry_of w registry routeHandlerId = Some route \<longrightarrow>
         ledger_of w (requests (route_of w route)) requestId = None \<longrightarrow>
         requestId \<notin> set object_prototype \<longrightarrow>
         getRequest routeHandlerId requestId w = Inr Undefined) \<and>
      (\<forall>route. registry_of w registry routeHandlerId = Some route \<longrightarrow>
         ledger_of w (requests (route_of w route)) requestId = None \<longrightarrow>
         requestId \<in> set object_prototype \<longrightarrow>
         getRequest routeHandlerId requestId w = Inr (Inherited requestId)))"
  by (auto simp: getRoute_def getRequest_def get_prop_def split: option.splits)

theorem lookups_of_unregistered_witness:
  "state example_driver ''routes'' = Some 0 \<and>
   registry_of example_driver 0 ''route2'' = None \<and>
   ''route2'' \<notin> set object_prototype \<and>
   getRoute ''route2'' example_driver = Inr Undefined \<and>
   getRequest ''route2'' ''request1'' example_driver = Inr Undefined \<and>
   registry_of example_driver 0 ''toString'' = None \<and>
   ''toString'' \<in> set object_prototype \<and>
   getRoute ''toString'' example_driver = Inr (Inherited ''toString'') \<and>
   getRequest ''toString'' ''request1'' example_driver = Inl type_error \<and>
   registry_of example_driver 0 ''route1'' = Some 1 \<and>
   ledger_of example_driver (requests (route_of example_driver 1)) ''request2'' = None \<and>
   ''request2'' \<notin> set object_prototype \<and>
   getRequest ''route1'' ''request2'' example_driver = Inr Undefined \<and>
   ledger_of example_driver (requests (route_of example_driver 1)) ''constructor'' = None \<and>
   ''constructor'' \<in> set object_prototype \<and>
   getRequest ''route1'' ''constructor'' example_driver = Inr (Inherited ''constructor'') \<and>
   state new_driver ''routes'' = None \<and>
   getRoute ''route2'' new_driver = Inl type_error \<and>
   getRequest ''route2'' ''request1'' new_driver = Inl type_error"
  using lookups_of_unregistered
          [where w = example_driver and routeHandlerId = "''route2''"
             and requestId = "''request1''"]
        lookups_of_unregistered
          [where w = example_driver and routeHandlerId = "''toString''"
             and requestId = "''request1''"]
        lookups_of_unregistered
          [where w = example_driver and routeHandlerId = "''route1''"
             and requestId = "''request2''"]
        lookups_of_unregistered
          [where w = example_driver and routeHandlerId = "''route1''"
             and requestId = "''constructor''"]
        lookups_of_unregistered
          [where w = new_driver and routeHandlerId = "''route2''"
             and requestId = "''request1''"]
  by (simp add: example_driver_fields new_driver_def inherited_names plain_names)

text \<open>
  C4, as stated, fails: after the listener of \<^verbatim>\<open>'test:before:run'\<close> has run,
  \<^verbatim>\<open>getRoute\<close> and \<^verbatim>\<open>getRequest\<close> are claimed to return absent for every
  identifier. The new registry is a plain object, so for \<^verbatim>\<open>toString\<close>
  \<^verbatim>\<open>getRoute\<close> returns the member inherited from \<^verbatim>\<open>Object.prototype\<close>, and
  \<^verbatim>\<open>getRequest\<close> raises a \<^verbatim>\<open>TypeError\<close>.
\<close>

theorem lookup_of_inherited_name_after_reset:
  "getRoute ''toString'' (test_before_run example_driver) = Inr (Inherited ''toString'') \<and>
   getRoute ''toString'' (test_before_run example_driver) \<noteq> Inr Undefined \<and>
   getRequest ''toString'' ''request1'' (test_before_run example_driver) = Inl type_error"
  by (simp add: getRoute_def getRequest_def test_before_run_def Let_def get_prop_empty
      inherited_names)

text \<open>
  C4, amended: after the listener of \<^verbatim>\<open>'test:before:run'\<close> has run, the registry has
  no route of its own, whatever was registered before: \<^verbatim>\<open>getRoute\<close> returns absent
  for every route identifier that is not the name of a member inherited from
  \<^verbatim>\<open>Object.prototype\<close>, and \<^verbatim>\<open>getRequest\<close> returns absent for every pair with such
  a route identifier. For a route identifier that names an inherited member,
  \<^verbatim>\<open>getRoute\<close> returns the member and \<^verbatim>\<open>getRequest\<close> raises a \<^verbatim>\<open>TypeError\<close>.
\<close>

theorem lookups_after_reset:
  "(routeHandlerId \<notin> set object_prototype \<longrightarrow>
      getRoute routeHandlerId (test_before_run w) = Inr Undefined \<and>
      getRequest routeHandlerId requestId (test_before_run w) = Inr Undefined) \<and>
   (routeHandlerId \<in> set object_prototype \<longrightarrow>
      getRoute routeHandlerId (test_before_run w) = Inr (Inherited routeHandlerId) \<and>
      getRequest routeHandlerId requestId (test_before_run w) = Inl type_error) \<and>
   (\<forall>route. getRoute routeHandlerId (test_before_run w) \<noteq> Inr (Own route)) \<and>
   (\<forall>request. getRequest routeHandlerId requestId (test_before_run w) \<noteq> Inr (Own request))"
  by (simp add: getRoute_def getRequest_def test_before_run_def Let_def get_prop_empty)

theorem lookups_after_reset_witness:
  "getRoute ''route1'' example_driver = Inr (Own 1) \<and>
   getRequest ''route1'' ''request1'' example_driver = Inr (Own 3) \<and>
   ''route1'' \<notin> set object_prototype \<and>
   getRoute ''route1'' (test_before_run example_driver) = Inr Undefined \<and>
   getRequest ''route1'' ''request1'' (test_before_run example_driver) = Inr Undefined \<and>
   getRoute ''route1'' (test_before_run new_driver) = Inr Undefined \<and>
   ''valueOf'' \<in> set object_prototype \<and>
   getRoute ''valueOf'' (test_before_run example_driver) = Inr (Inherited ''valueOf'') \<and>
   getRequest ''valueOf'' ''request1'' (test_before_run example_driver) = Inl type_error"
proof -
  have before: "getRoute ''route1'' example_driver = Inr (Own 1)"
    "getRequest ''route1'' ''request1'' example_driver = Inr (Own 3)"
    by (simp_all add: getRoute_def getRequest_def example_driver_fields get_prop_own)
  show ?thesis
    using before
      lookups_after_reset
        [where w = example_driver and routeHandlerId = "''route1''"
           and requestId = "''request1''"]
      lookups_after_reset
        [where w = new_driver and routeHandlerId = "''route1''"
           and requestId = "''request1''"]
      lookups_after_reset
        [where w = example_driver and routeHandlerId = "''valueOf''"
           and requestId = "''request1''"]
    by (simp add: inherited_names plain_names)
qed

text \<open>
  C5, as stated, fails: \<^verbatim>\<open>getRequest\<close> is claimed never to fail, and to be the
  entry of the ledger whenever the route is not absent. Where \<^verbatim>\<open>state('routes')\<close> is
  unset the route lookup raises, and \<^verbatim>\<open>getRequest\<close> with it. For \<^verbatim>\<open>hasOwnProperty\<close>
  the route lookup returns an inherited member, which is not absent, and
  \<^verbatim>\<open>getRequest\<close> raises. For the route \<^verbatim>\<open>route1\<close> and the request identifier
  \<^verbatim>\<open>toString\<close>, of which the ledger has no entry, \<^verbatim>\<open>getRequest\<close> returns the
  inherited member.
\<close>

theorem getRequest_can_fail:
  "getRequest ''route7'' ''request7'' new_driver = Inl type_error \<and>
   getRoute ''hasOwnProperty'' example_driver = Inr (Inherited ''hasOwnProperty'') \<and>
   getRequest ''hasOwnProperty'' ''request1'' example_driver = Inl type_error \<and>
   getRoute ''route1'' example_driver = Inr (Own 1) \<and>
   ledger_of example_driver (requests (route_of example_driver 1)) ''toString'' = None \<and>
   getRequest ''route1'' ''toString'' example_driver = Inr (Inherited ''toString'')"
  by (simp add: getRoute_def getRequest_def new_driver_def example_driver_def
      get_prop_def object_prototype_def)

text \<open>
  C5, amended: \<^verbatim>\<open>getRequest\<close> is a route lookup followed by a ledger lookup. It is
  absent whenever \<^verbatim>\<open>getRoute\<close> is absent. When \<^verbatim>\<open>getRoute\<close> returns a route of the
  registry, it is what reading the request identifier from that route's ledger gives:
  the ledger's entry, or, for an identifier the ledger does not have, the member of
  that name inherited from \<^verbatim>\<open>Object.prototype\<close> if there is one and absent
  otherwise. It raises what \<^verbatim>\<open>getRoute\<close> raises, and it raises a \<^verbatim>\<open>TypeError\<close> when
  \<^verbatim>\<open>getRoute\<close> returns an inherited member.
\<close>

theorem getRequest_composition:
  "(\<forall>e. getRoute routeHandlerId w = Inl e \<longrightarrow>
      getRequest routeHandlerId requestId w = Inl e) \<and>
   (getRoute routeHandlerId w = Inr Undefined \<longrightarrow>
      getRequest routeHandlerId requestId w = Inr Undefined) \<and>
   (\<forall>route. getRoute routeHandlerId w = Inr (Own route) \<longrightarrow>
      getRequest routeHandlerId requestId w =
        Inr (get_prop (ledger_of w (requests (route_of w route))) requestId) \<and>
      (\<forall>request. ledger_of w (requests (route_of w route)) requestId = Some request \<longrightarrow>
         getRequest routeHandlerId requestId w = Inr (Own request)) \<and>
      (ledger_of w (requests (route_of w route)) requestId = None \<longrightarrow>
         getRequest routeHandlerId requestId w =
           (if requestId \<in> set object_prototype then Inr (Inherited requestId)
            else Inr Undefined))) \<and>
   (\<forall>member. getRoute routeHandlerId w = Inr (Inherited member) \<longrightarrow>
      getRequest routeHandlerId requestId w = Inl type_error)"
  by (auto simp: getRequest_def get_prop_def)

theorem getRequest_composition_witness:
  "getRoute ''route1'' example_driver = Inr (Own 1) \<and>
   ledger_of example_driver (requests (route_of example_driver 1)) ''request1'' = Some 3 \<and>
   getRequest ''route1'' ''request1'' example_driver = Inr (Own 3) \<and>
   ledger_of example_driver (requests (route_of example_driver 1)) ''request2'' = None \<and>
   getRequest ''route1'' ''request2'' example_driver = Inr Undefined \<and>
   ledger_of example_driver (requests (route_of example_driver 1)) ''constructor'' = None \<and>
   getRequest ''route1'' ''constructor'' example_driver = Inr (Inherited ''constructor'') \<and>
   getRoute ''route2'' example_driver = Inr Undefined \<and>
   getRequest ''route2'' ''request1'' example_driver = Inr Undefined \<and>
   getRoute ''toString'' example_driver = Inr (Inherited ''toString'') \<and>
   getRequest ''toString'' ''request1'' example_driver = Inl type_error \<and>
   getRoute ''route1'' new_driver = Inl type_error \<and>
   getRequest ''route1'' ''request1'' new_driver = Inl type_error"
proof -
  have present: "getRoute ''route1'' example_driver = Inr (Own 1)"
    and absent: "getRoute ''route2'' example_driver = Inr Undefined"
    and member: "getRoute ''toString'' example_driver = Inr (Inherited ''toString'')"
    and unset: "getRoute ''route1'' new_driver = Inl type_error"
    by (simp_all add: getRoute_def example_driver_fields new_driver_def get_prop_own
        get_prop_inherited get_prop_undefined inherited_names plain_names)
  show ?thesis
    using present absent member unset
      getRequest_composition
        [where w = example_driver and routeHandlerId = "''route1''"
           and requestId = "''request1''"]
      getRequest_composition
        [where w = example_driver and routeHandlerId = "''route1''"
           and requestId = "''request2''"]
      getRequest_composition
        [where w = example_driver and routeHandlerId = "''route1''"
           and requestId = "''constructor''"]
      getRequest_composition
        [where w = example_driver and routeHandlerId = "''route2''"
           and requestId = "''request1''"]
      getRequest_composition
        [where w = example_driver and routeHandlerId = "''toString''"
           and requestId = "''request1''"]
      getRequest_composition
        [where w = new_driver and routeHandlerId = "''route1''"
           and requestId = "''request1''"]
    by (simp add: example_driver_fields inherited_names plain_names get_prop_def)
qed

text \<open>
  C9, as stated, fails on its last part: after the reset every lookup is claimed to
  return absent. For \<^verbatim>\<open>hasOwnProperty\<close> \<^verbatim>\<open>getRoute\<close> returns the member the new
  registry inherits from \<^verbatim>\<open>Object.prototype\<close>, and \<^verbatim>\<open>getRequest\<close> raises.
\<close>

theorem lookup_after_reset_not_absent:
  "getRoute ''hasOwnProperty'' (test_before_run example_driver) =
     Inr (Inherited ''hasOwnProperty'') \<and>
   getRequest ''hasOwnProperty'' ''request1'' (test_before_run example_driver) =
     Inl type_error"
  by (simp add: getRoute_def getRequest_def test_before_run_def Let_def get_prop_empty
      inherited_names)

text \<open>
  C9, amended: the reset allocates a new registry with no route of its own and leaves
  every object that existed before as it was. Every route keeps its fields, every
  ledger its entries and every request its content; every registry allocated before
  keeps its entries, the one the store pointed at among them, and it is another object
  than the new one. After the reset, every lookup of a route identifier that is not
  the name of a member inherited from \<^verbatim>\<open>Object.prototype\<close> returns absent.
\<close>

theorem reset_keeps_old_objects:
  "route_of (test_before_run w) = route_of w \<and>
   ledger_of (test_before_run w) = ledger_of w \<and>
   request_of (test_before_run w) = request_of w \<and>
   (\<forall>registry < next_ref w.
      registry_of (test_before_run w) registry = registry_of w registry) \<and>
   (\<forall>registry. registry_allocated w \<longrightarrow> state w ''routes'' = Some registry \<longrightarrow>
      registry_of (test_before_run w) registry = registry_of w registry \<and>
      state (test_before_run w) ''routes'' \<noteq> Some registry) \<and>
   (\<forall>route. getRoute routeHandlerId w = Inr (Own route) \<longrightarrow>
      route_of (test_before_run w) route = route_of w route \<and>
      ledger_of (test_before_run w) (requests (route_of (test_before_run w) route)) =
        ledger_of w (requests (route_of w route))) \<and>
   registry_allocated (test_before_run w) \<and>
   state (test_before_run w) ''routes'' = Some (next_ref w) \<and>
   registry_of (test_before_run w) (next_ref w) = Map.empty \<and>
   (routeHandlerId \<notin> set object_prototype \<longrightarrow>
      getRoute routeHandlerId (test_before_run w) = Inr Undefined \<and>
      getRequest routeHandlerId requestId (test_before_run w) = Inr Undefined)"
proof -
  have old: "\<forall>registry. registry_allocated w \<longrightarrow> state w ''routes'' = Some registry \<longrightarrow>
      registry_of (test_before_run w) registry = registry_of w registry \<and>
      state (test_before_run w) ''routes'' \<noteq> Some registry"
    by (auto simp: test_before_run_def Let_def dest: store_registry_below_next_ref)
  have rest: "route_of (test_before_run w) = route_of w"
    "ledger_of (test_before_run w) = ledger_of w"
    "request_of (test_before_run w) = request_of w"
    "\<forall>registry < next_ref w.
      registry_of (test_before_run w) registry = registry_of w registry"
    "state (test_before_run w) ''routes'' = Some (next_ref w)"
    "registry_of (test_before_run w) (next_ref w) = Map.empty"
    by (simp_all add: test_before_run_def Let_def)
  have lookups: "routeHandlerId \<notin> set object_prototype \<longrightarrow>
      getRoute routeHandlerId (test_before_run w) = Inr Undefined \<and>
      getRequest routeHandlerId requestId (test_before_run w) = Inr Undefined"
    by (simp add: getRoute_def getRequest_def test_before_run_def Let_def get_prop_empty)
  show ?thesis
    using old rest lookups registry_allocated_reset [of w] by simp
qed

theorem reset_keeps_old_objects_witness:
  "registry_allocated example_driver \<and>
   state example_driver ''routes'' = Some 0 \<and>
   (0::nat) < next_ref example_driver \<and>
   getRoute ''route1'' example_driver = Inr (Own 1) \<and>
   registry_of (test_before_run example_driver) 0 ''route1'' = Some 1 \<and>
   state (test_before_run example_driver) ''routes'' = Some 4 \<and>
   requests (route_of (test_before_run example_driver) 1) = 2 \<and>
   ledger_of (test_before_run example_driver) 2 ''request1'' = Some 3 \<and>
   ''route1'' \<notin> set object_prototype \<and>
   getRoute ''route1'' (test_before_run example_driver) = Inr Undefined \<and>
   getRequest ''route1'' ''request1'' (test_before_run example_driver) = Inr Undefined"
proof -
  have held: "getRoute ''route1'' example_driver = Inr (Own 1)"
    by (simp add: getRoute_def example_driver_fields get_prop_own)
  show ?thesis
    using held registry_allocated_example_driver
      reset_keeps_old_objects
        [where w = example_driver and routeHandlerId = "''route1''"
           and requestId = "''request1''"]
    by (simp add: example_driver_fields plain_names)
qed

subsection \<open>The dispatcher\<close>

text \<open>
  C2, as stated, fails: every event whose name is not one of the three in the table is
  claimed to end in one call of \<^verbatim>\<open>failCurrentTest\<close>. The table is a plain object,
  so for the name \<^verbatim>\<open>toString\<close> the lookup finds the function inherited from
  \<^verbatim>\<open>Object.prototype\<close>; the call returns, the chain is fulfilled, and when the
  reactions have run nothing is queued: the event is ignored.
\<close>

theorem inherited_event_name_ignored:
  "''toString'' \<notin> {''http:request:received'', ''http:response:received'',
      ''http:request:complete''} \<and>
   net_event_listener example_handlers ''toString'' ''frame1'' example_driver =
     Inr (example_driver\<lparr>chains := [Fulfilled]\<rparr>) \<and>
   run_chains (example_driver\<lparr>chains := [Fulfilled]\<rparr>) = example_driver \<and>
   immediates (run_chains (example_driver\<lparr>chains := [Fulfilled]\<rparr>)) = [] \<and>
   failed (run_immediates (run_chains (example_driver\<lparr>chains := [Fulfilled]\<rparr>))) = []"
proof -
  have call: "call_handler example_handlers ''toString'' ''frame1'' example_driver =
      (Inr Other, example_driver)"
    by (rule call_handler_returning_member) simp
  have listener: "net_event_listener example_handlers ''toString'' ''frame1'' example_driver =
      Inr (example_driver\<lparr>chains := [Fulfilled]\<rparr>)"
    by (simp add: net_event_listener_def bluebird_try_def call example_driver_fields)
  have run: "run_chains (example_driver\<lparr>chains := [Fulfilled]\<rparr>) = example_driver"
    by (simp add: run_chains_def catch_reaction_def example_driver_def)
  show ?thesis
    using listener run
    by (simp add: example_driver_fields failed_run_immediates)
qed

text \<open>
  C2, amended: an event whose name is none of \<^verbatim>\<open>'http:request:received'\<close>,
  \<^verbatim>\<open>'http:response:received'\<close> and \<^verbatim>\<open>'http:request:complete'\<close>, and neither
  \<^verbatim>\<open>'toString'\<close> nor \<^verbatim>\<open>'constructor'\<close>, is not ignored. The listener leaves one
  chain behind, rejected with the \<^verbatim>\<open>TypeError\<close> of the call; when the reactions
  run, that chain makes exactly one call of \<^verbatim>\<open>failCurrentTest\<close>, on top of what the
  chains already pending do, and the call queues the \<^verbatim>\<open>TypeError\<close>, marked. The
  store, the registries, the routes, the ledgers and the requests are as they were
  before the event. For the names \<^verbatim>\<open>'toString'\<close> and \<^verbatim>\<open>'constructor'\<close> the table
  inherits a function that returns: the chain is fulfilled and \<^verbatim>\<open>failCurrentTest\<close> is
  not called.
\<close>

theorem unknown_event_fails_test:
  "(eventName \<notin> {''http:request:received'', ''http:response:received'',
       ''http:request:complete'', ''toString'', ''constructor''} \<longrightarrow>
      (\<exists>w'. net_event_listener H eventName frame w = Inr w' \<and>
         w' = w\<lparr>chains := chains w @ [Rejected type_error]\<rparr> \<and>
         run_chains w' = snd (failCurrentTest type_error (run_chains w)) \<and>
         fst (failCurrentTest type_error (run_chains w)) = Inr () \<and>
         immediates (run_chains w') = immediates (run_chains w) @ [tagged type_error] \<and>
         unhandled (run_chains w') = unhandled (run_chains w) \<and>
         state (run_chains w') = state w \<and>
         registry_of (run_chains w') = registry_of w \<and>
         route_of (run_chains w') = route_of w \<and>
         ledger_of (run_chains w') = ledger_of w \<and>
         request_of (run_chains w') = request_of w)) \<and>
   (eventName \<in> {''toString'', ''constructor''} \<longrightarrow>
      (\<exists>w'. net_event_listener H eventName frame w = Inr w' \<and>
         w' = w\<lparr>chains := chains w @ [Fulfilled]\<rparr> \<and>
         run_chains w' = run_chains w))"
proof (intro conjI impI)
  assume unknown: "eventName \<notin> {''http:request:received'', ''http:response:received'',
       ''http:request:complete'', ''toString'', ''constructor''}"
  let ?w' = "w\<lparr>chains := chains w @ [Rejected type_error]\<rparr>"
  have listener: "net_event_listener H eventName frame w = Inr ?w'"
    by (simp add: net_event_listener_def bluebird_try_def call_handler_unknown [OF unknown])
  have run: "run_chains ?w' =
      (run_chains w)\<lparr>immediates := immediates (run_chains w) @ [tagged type_error]\<rparr>"
    by (simp add: run_chains_snoc catch_reaction_taggable taggable_type_error)
  show "\<exists>w'. net_event_listener H eventName frame w = Inr w' \<and>
         w' = w\<lparr>chains := chains w @ [Rejected type_error]\<rparr> \<and>
         run_chains w' = snd (failCurrentTest type_error (run_chains w)) \<and>
         fst (failCurrentTest type_error (run_chains w)) = Inr () \<and>
         immediates (run_chains w') = immediates (run_chains w) @ [tagged type_error] \<and>
         unhandled (run_chains w') = unhandled (run_chains w) \<and>
         state (run_chains w') = state w \<and>
         registry_of (run_chains w') = registry_of w \<and>
         route_of (run_chains w') = route_of w \<and>
         ledger_of (run_chains w') = ledger_of w \<and>
         request_of (run_chains w') = request_of w"
    using listener run
    by (simp add: failCurrentTest_taggable taggable_type_error run_chains_frame)
next
  assume member: "eventName \<in> {''toString'', ''constructor''}"
  have listener: "net_event_listener H eventName frame w =
      Inr (w\<lparr>chains := chains w @ [Fulfilled]\<rparr>)"
    by (simp add: net_event_listener_def bluebird_try_def
        call_handler_returning_member [OF member])
  have run: "run_chains (w\<lparr>chains := chains w @ [Fulfilled]\<rparr>) = run_chains w"
    by (simp add: run_chains_snoc catch_reaction_def)
  show "\<exists>w'. net_event_listener H eventName frame w = Inr w' \<and>
         w' = w\<lparr>chains := chains w @ [Fulfilled]\<rparr> \<and>
         run_chains w' = run_chains w"
    using listener run by simp
qed

theorem unknown_event_fails_test_witness:
  "''http:request:aborted'' \<notin> {''http:request:received'', ''http:response:received'',
      ''http:request:complete'', ''toString'', ''constructor''} \<and>
   net_event_listener example_handlers ''http:request:aborted'' ''frame1'' example_driver =
     Inr (example_driver\<lparr>chains := [Rejected type_error]\<rparr>) \<and>
   immediates (run_chains (example_driver\<lparr>chains := [Rejected type_error]\<rparr>)) =
     [tagged type_error] \<and>
   registry_of (run_chains (example_driver\<lparr>chains := [Rejected type_error]\<rparr>)) =
     registry_of example_driver \<and>
   ledger_of (run_chains (example_driver\<lparr>chains := [Rejected type_error]\<rparr>)) =
     ledger_of example_driver \<and>
   ''valueOf'' \<notin> {''http:request:received'', ''http:response:received'',
      ''http:request:complete'', ''toString'', ''constructor''} \<and>
   net_event_listener example_handlers ''valueOf'' ''frame1'' example_driver =
     Inr (example_driver\<lparr>chains := [Rejected type_error]\<rparr>) \<and>
   ''constructor'' \<in> {''toString'', ''constructor''} \<and>
   net_event_listener example_handlers ''constructor'' ''frame1'' example_driver =
     Inr (example_driver\<lparr>chains := [Fulfilled]\<rparr>) \<and>
   run_chains (example_driver\<lparr>chains := [Fulfilled]\<rparr>) = example_driver"
  using unknown_event_fails_test
          [where H = example_handlers and eventName = "''http:request:aborted''"
             and frame = "''frame1''" and w = example_driver]
        unknown_event_fails_test
          [where H = example_handlers and eventName = "''valueOf''"
             and frame = "''frame1''" and w = example_driver]
        unknown_event_fails_test
          [where H = example_handlers and eventName = "''constructor''"
             and frame = "''frame1''" and w = example_driver]
  by (simp add: example_driver_fields run_chains_idle failCurrentTest_taggable
      taggable_type_error)

text \<open>
  C3, as stated, fails: no failure of a handler is claimed to pass the dispatcher other
  than through \<^verbatim>\<open>failCurrentTest\<close>. A handler that throws a string has it delivered
  to \<^verbatim>\<open>failCurrentTest\<close>, whose assignment \<^verbatim>\<open>err.fromSpec = true\<close> raises on a
  string: nothing is queued to fail the test, and the chain ends as an unhandled
  rejection.
\<close>

theorem thrown_string_ends_unhandled:
  "netEventHandlers careless_handlers ''http:response:received'' =
     Some string_throwing_handler \<and>
   string_throwing_handler ''frame1'' capabilities example_driver =
     (Inl (Primitive ''boom''), example_driver) \<and>
   net_event_listener careless_handlers ''http:response:received'' ''frame1''
     example_driver = Inr (example_driver\<lparr>chains := [Rejected (Primitive ''boom'')]\<rparr>) \<and>
   immediates (run_chains (example_driver\<lparr>chains := [Rejected (Primitive ''boom'')]\<rparr>)) =
     [] \<and>
   unhandled (run_chains (example_driver\<lparr>chains := [Rejected (Primitive ''boom'')]\<rparr>)) =
     [type_error]"
proof -
  have own: "netEventHandlers careless_handlers ''http:response:received'' =
      Some string_throwing_handler"
    by (simp add: netEventHandlers_def careless_handlers_def)
  have call: "call_handler careless_handlers ''http:response:received'' ''frame1''
      example_driver = (Inl (Primitive ''boom''), example_driver)"
    by (simp add: call_handler_def get_prop_def own string_throwing_handler_def)
  have listener: "net_event_listener careless_handlers ''http:response:received''
      ''frame1'' example_driver =
        Inr (example_driver\<lparr>chains := [Rejected (Primitive ''boom'')]\<rparr>)"
    by (simp add: net_event_listener_def bluebird_try_def call example_driver_fields)
  have run: "run_chains (example_driver\<lparr>chains := [Rejected (Primitive ''boom'')]\<rparr>) =
      example_driver\<lparr>unhandled := [type_error]\<rparr>"
    by (simp add: run_chains_def catch_reaction_untaggable example_driver_def)
  show ?thesis
    using own listener run
    by (simp add: string_throwing_handler_def example_driver_fields)
qed

text \<open>
  C3, amended: when the handler of an event throws, or returns a promise that rejects,
  the listener still returns to the emitter, and the chain is rejected with that
  value. When the reactions run, the chain calls \<^verbatim>\<open>failCurrentTest\<close> with it, once,
  and \<^verbatim>\<open>Cypress.cy.fail\<close> has not been called by then. If the value accepts the
  assignment of \<^verbatim>\<open>fromSpec\<close> (an error object that is not frozen), the failure is
  queued, marked, and no chain ends rejected because of it. If it does not (a
  primitive, \<^verbatim>\<open>undefined\<close>, a frozen object), \<^verbatim>\<open>failCurrentTest\<close> raises a
  \<^verbatim>\<open>TypeError\<close>, nothing is queued, and the chain ends as an unhandled rejection
  with that \<^verbatim>\<open>TypeError\<close>.
\<close>

theorem handler_failure_reaches_failCurrentTest:
  assumes "netEventHandlers H eventName = Some handler"
    and "handler frame capabilities w = (r, w1)"
    and "r = Inl e \<or> r = Inr (Promise (Rejected e))"
  shows "\<exists>w'. net_event_listener H eventName frame w = Inr w' \<and>
           w' = w1\<lparr>chains := chains w1 @ [Rejected e]\<rparr> \<and>
           run_chains w' = catch_reaction (Rejected e) (run_chains w1) \<and>
           failed (run_chains w') = failed w1 \<and>
           (taggable e \<longrightarrow>
              run_chains w' = snd (failCurrentTest e (run_chains w1)) \<and>
              fst (failCurrentTest e (run_chains w1)) = Inr () \<and>
              immediates (run_chains w') = immediates (run_chains w1) @ [tagged e] \<and>
              unhandled (run_chains w') = unhandled (run_chains w1)) \<and>
           (\<not> taggable e \<longrightarrow>
              fst (failCurrentTest e (run_chains w1)) = Inl type_error \<and>
              immediates (run_chains w') = immediates (run_chains w1) \<and>
              unhandled (run_chains w') = unhandled (run_chains w1) @ [type_error])"
proof -
  let ?w' = "w1\<lparr>chains := chains w1 @ [Rejected e]\<rparr>"
  have "call_handler H eventName frame w = (r, w1)"
    using assms(1,2) by (simp add: call_handler_def get_prop_own)
  then have "bluebird_try (call_handler H eventName frame) w = (Rejected e, w1)"
    using assms(3) by (auto simp: bluebird_try_def)
  then have listener: "net_event_listener H eventName frame w = Inr ?w'"
    by (simp add: net_event_listener_def)
  have run: "run_chains ?w' = catch_reaction (Rejected e) (run_chains w1)"
    by (simp add: run_chains_snoc)
  show ?thesis
  proof (cases "taggable e")
    case True
    with listener run show ?thesis
      by (simp add: catch_reaction_taggable failCurrentTest_taggable run_chains_frame)
  next
    case False
    with listener run show ?thesis
      by (simp add: catch_reaction_untaggable failCurrentTest_untaggable run_chains_frame)
  qed
qed

theorem handler_failure_reaches_failCurrentTest_witness:
  "netEventHandlers example_handlers ''http:response:received'' = Some throwing_handler \<and>
   throwing_handler ''frame1'' capabilities example_driver =
     (Inl callback_failed, example_driver) \<and>
   taggable callback_failed \<and>
   net_event_listener example_handlers ''http:response:received'' ''frame1'' example_driver =
     Inr (example_driver\<lparr>chains := [Rejected callback_failed]\<rparr>) \<and>
   immediates (run_chains (example_driver\<lparr>chains := [Rejected callback_failed]\<rparr>)) =
     [tagged callback_failed] \<and>
   unhandled (run_chains (example_driver\<lparr>chains := [Rejected callback_failed]\<rparr>)) = [] \<and>
   netEventHandlers example_handlers ''http:request:received'' = Some emitting_handler \<and>
   emitting_handler ''frame1'' capabilities offline_driver =
     (Inr (Promise (Rejected socket_closed)),
      offline_driver\<lparr>outbox := [(''net'', ''http:request:continue'', ''frame1'')]\<rparr>) \<and>
   taggable socket_closed \<and>
   immediates (run_chains (offline_driver
           \<lparr>outbox := [(''net'', ''http:request:continue'', ''frame1'')],
            chains := [Rejected socket_closed]\<rparr>)) =
     [tagged socket_closed] \<and>
   netEventHandlers careless_handlers ''http:response:received'' =
     Some string_throwing_handler \<and>
   string_throwing_handler ''frame1'' capabilities example_driver =
     (Inl (Primitive ''boom''), example_driver) \<and>
   \<not> taggable (Primitive ''boom'') \<and>
   immediates (run_chains (example_driver\<lparr>chains := [Rejected (Primitive ''boom'')]\<rparr>)) =
     [] \<and>
   unhandled (run_chains (example_driver\<lparr>chains := [Rejected (Primitive ''boom'')]\<rparr>)) =
     [type_error]"
proof -
  have thrower:
    "netEventHandlers example_handlers ''http:response:received'' = Some throwing_handler"
    and emitter:
    "netEventHandlers example_handlers ''http:request:received'' = Some emitting_handler"
    and careless:
    "netEventHandlers careless_handlers ''http:response:received'' =
       Some string_throwing_handler"
    by (simp_all add: netEventHandlers_def example_handlers_def careless_handlers_def)
  have throws: "throwing_handler ''frame1'' capabilities example_driver =
      (Inl callback_failed, example_driver)"
    by (simp add: throwing_handler_def)
  have rejects: "emitting_handler ''frame1'' capabilities offline_driver =
      (Inr (Promise (Rejected socket_closed)),
       offline_driver\<lparr>outbox := [(''net'', ''http:request:continue'', ''frame1'')]\<rparr>)"
    by (simp add: emitting_handler_def capabilities_def emitNetEvent_def backend_def
        offline_driver_def example_driver_fields)
  have booms: "string_throwing_handler ''frame1'' capabilities example_driver =
      (Inl (Primitive ''boom''), example_driver)"
    by (simp add: string_throwing_handler_def)
  have idle: "chains offline_driver = []" "immediates offline_driver = []"
    "unhandled offline_driver = []"
    by (simp_all add: offline_driver_def example_driver_fields)
  have tags: "taggable callback_failed" "taggable socket_closed"
    by (simp_all add: callback_failed_def socket_closed_def)
  show ?thesis
    using thrower emitter careless throws rejects booms tags
      handler_failure_reaches_failCurrentTest [OF thrower throws disjI1 [OF refl]]
      handler_failure_reaches_failCurrentTest [OF emitter rejects disjI2 [OF refl]]
      handler_failure_reaches_failCurrentTest [OF careless booms disjI1 [OF refl]]
    by (simp add: example_driver_fields idle run_chains_idle catch_reaction_taggable
        catch_reaction_untaggable)
qed

text \<open>
  C10: for every event name and frame, whatever the handlers are and whatever state
  the driver is in, the listener of \<^verbatim>\<open>'net:event'\<close> returns to the emitter; it does
  not throw.
\<close>

theorem net_event_listener_returns:
  "\<exists>w'. net_event_listener H eventName frame w = Inr w'"
  by (simp add: net_event_listener_def split: prod.splits)

theorem net_event_listener_returns_witness:
  "(\<exists>w'. net_event_listener example_handlers ''http:request:aborted'' ''frame1''
           new_driver = Inr w') \<and>
   (\<exists>w'. net_event_listener example_handlers ''http:response:received'' ''frame1''
           example_driver = Inr w') \<and>
   (\<exists>w'. net_event_listener example_handlers ''http:request:received'' ''frame1''
           offline_driver = Inr w') \<and>
   (\<exists>w'. net_event_listener careless_handlers ''http:response:received'' ''frame1''
           example_driver = Inr w') \<and>
   (\<exists>w'. net_event_listener example_handlers ''toString'' ''frame1''
           example_driver = Inr w')"
  using net_event_listener_returns
          [where H = example_handlers and eventName = "''http:request:aborted''"
             and frame = "''frame1''" and w = new_driver]
        net_event_listener_returns
          [where H = example_handlers and eventName = "''http:response:received''"
             and frame = "''frame1''" and w = example_driver]
        net_event_listener_returns
          [where H = example_handlers and eventName = "''http:request:received''"
             and frame = "''frame1''" and w = offline_driver]
        net_event_listener_returns
          [where H = careless_handlers and eventName = "''http:response:received''"
             and frame = "''frame1''" and w = example_driver]
        net_event_listener_returns
          [where H = example_handlers and eventName = "''toString''"
             and frame = "''frame1''" and w = example_driver]
  by blast

subsection \<open>Emitting and failing\<close>

text \<open>
  C8: \<^verbatim>\<open>emitNetEvent(eventName, frame)\<close> is one call of \<^verbatim>\<open>Cypress.backend\<close> on the
  channel \<^verbatim>\<open>'net'\<close>: one message is added to those sent, it carries the event name and
  the frame as given, nothing else changes, and the result is the promise of that
  round-trip.
\<close>

theorem emitNetEvent_envelope:
  "outbox (snd (emitNetEvent eventName frame w)) =
     outbox w @ [(''net'', eventName, frame)] \<and>
   snd (emitNetEvent eventName frame w) =
     w\<lparr>outbox := outbox w @ [(''net'', eventName, frame)]\<rparr> \<and>
   fst (emitNetEvent eventName frame w) = host w (length (outbox w))"
  by (simp add: emitNetEvent_def backend_def)

theorem emitNetEvent_envelope_witness:
  "outbox (snd (emitNetEvent ''http:request:continue'' ''frame1'' example_driver)) =
     [(''net'', ''http:request:continue'', ''frame1'')] \<and>
   fst (emitNetEvent ''http:request:continue'' ''frame1'' example_driver) = Fulfilled \<and>
   fst (emitNetEvent ''http:request:continue'' ''frame1'' offline_driver) =
     Rejected socket_closed"
proof -
  have hosts: "host example_driver 0 = Fulfilled"
    "host offline_driver 0 = Rejected socket_closed"
    "outbox offline_driver = []"
    by (simp_all add: example_driver_def offline_driver_def)
  show ?thesis
    using hosts
      emitNetEvent_envelope
        [where eventName = "''http:request:continue''" and frame = "''frame1''"
           and w = example_driver]
      emitNetEvent_envelope
        [where eventName = "''http:request:continue''" and frame = "''frame1''"
           and w = offline_driver]
    by (simp add: example_driver_fields)
qed

text \<open>
  C6, as stated, fails: every call of \<^verbatim>\<open>failCurrentTest\<close> is claimed to mark the
  error. For a frozen error object, and for a thrown string, the assignment
  \<^verbatim>\<open>err.fromSpec = true\<close> raises a \<^verbatim>\<open>TypeError\<close>: the call marks nothing and queues
  nothing.
\<close>

theorem failCurrentTest_frozen_error_not_tagged:
  "\<not> is_tagged frozen_failure \<and>
   failCurrentTest frozen_failure example_driver = (Inl type_error, example_driver) \<and>
   immediates (snd (failCurrentTest frozen_failure example_driver)) = [] \<and>
   failCurrentTest (Primitive ''boom'') example_driver = (Inl type_error, example_driver)"
  by (simp add: failCurrentTest_def frozen_failure_def example_driver_fields)

text \<open>
  C6, amended: every call of \<^verbatim>\<open>failCurrentTest\<close> with an error that accepts the
  assignment of \<^verbatim>\<open>fromSpec\<close> (an error object that is not frozen) marks it: the error
  handed to the deferred callback is the error it was called with, marked
  \<^verbatim>\<open>fromSpec\<close>. The mark is there when the call returns, while \<^verbatim>\<open>Cypress.cy.fail\<close>
  has not been called yet; when the queue of \<^verbatim>\<open>setImmediate\<close> has run,
  \<^verbatim>\<open>Cypress.cy.fail\<close> has been called with the marked error, after the callbacks
  queued earlier. With a value that does not accept the assignment (a frozen object, a
  primitive, \<^verbatim>\<open>undefined\<close>) the call raises a \<^verbatim>\<open>TypeError\<close> and changes nothing.
\<close>

theorem failCurrentTest_tags_error:
  "(taggable err \<longrightarrow>
      fst (failCurrentTest err w) = Inr () \<and>
      immediates (snd (failCurrentTest err w)) = immediates w @ [tagged err] \<and>
      is_tagged (last (immediates (snd (failCurrentTest err w)))) \<and>
      failed (snd (failCurrentTest err w)) = failed w \<and>
      failed (run_immediates (snd (failCurrentTest err w))) =
        failed w @ immediates w @ [tagged err] \<and>
      is_tagged (last (failed (run_immediates (snd (failCurrentTest err w)))))) \<and>
   (\<not> taggable err \<longrightarrow> failCurrentTest err w = (Inl type_error, w))"
  by (simp add: failed_run_immediates failCurrentTest_taggable failCurrentTest_untaggable
      is_tagged_tagged)

theorem failCurrentTest_tags_error_witness:
  "taggable callback_failed \<and>
   tagged callback_failed =
     ErrorObject \<lparr>kind = Thrown ''callback failed'', fromSpec = True, frozen = False\<rparr> \<and>
   immediates (snd (failCurrentTest callback_failed example_driver)) =
     [tagged callback_failed] \<and>
   failed (snd (failCurrentTest callback_failed example_driver)) = [] \<and>
   failed (run_immediates (snd (failCurrentTest callback_failed example_driver))) =
     [tagged callback_failed] \<and>
   \<not> taggable frozen_failure \<and>
   failCurrentTest frozen_failure example_driver = (Inl type_error, example_driver)"
proof -
  have tags: "taggable callback_failed" "\<not> taggable frozen_failure"
    "tagged callback_failed =
       ErrorObject \<lparr>kind = Thrown ''callback failed'', fromSpec = True, frozen = False\<rparr>"
    by (simp_all add: callback_failed_def frozen_failure_def)
  show ?thesis
    using tags
      failCurrentTest_tags_error [where err = callback_failed and w = example_driver]
      failCurrentTest_tags_error [where err = frozen_failure and w = example_driver]
    by (simp add: example_driver_fields)
qed

text \<open>
  C7, as stated, fails: the call is claimed to return with the failure pending, and the
  chain never to end as an unhandled rejection. Called from \<^verbatim>\<open>.catch\<close> with a frozen
  error object, \<^verbatim>\<open>failCurrentTest\<close> raises: no callback is pending, and the chain ends
  rejected with the \<^verbatim>\<open>TypeError\<close>, unhandled.
\<close>

theorem failCurrentTest_frozen_error_unhandled:
  "fst (failCurrentTest frozen_failure example_driver) = Inl type_error \<and>
   immediates (snd (failCurrentTest frozen_failure example_driver)) = [] \<and>
   unhandled (catch_reaction (Rejected frozen_failure) example_driver) = [type_error] \<and>
   immediates (catch_reaction (Rejected frozen_failure) example_driver) = []"
  by (simp add: failCurrentTest_def catch_reaction_def frozen_failure_def
      example_driver_fields)

text \<open>
  C7, amended: \<^verbatim>\<open>failCurrentTest\<close> never calls \<^verbatim>\<open>Cypress.cy.fail\<close> within its own
  call. With an error that accepts the assignment of \<^verbatim>\<open>fromSpec\<close>, it returns normally
  with one more callback queued, so the chain that called it from \<^verbatim>\<open>.catch\<close> does not
  end rejected, and the call of \<^verbatim>\<open>Cypress.cy.fail\<close> happens in a later turn of the
  \<^verbatim>\<open>setImmediate\<close> queue. With a value that does not accept the assignment, it raises
  a \<^verbatim>\<open>TypeError\<close> before anything is queued, and the chain that called it ends as an
  unhandled rejection.
\<close>

theorem failCurrentTest_defers:
  "failed (snd (failCurrentTest err w)) = failed w \<and>
   failed (catch_reaction (Rejected err) w) = failed w \<and>
   (taggable err \<longrightarrow>
      fst (failCurrentTest err w) = Inr () \<and>
      length (immediates (snd (failCurrentTest err w))) = Suc (length (immediates w)) \<and>
      unhandled (catch_reaction (Rejected err) w) = unhandled w \<and>
      run_immediate (snd (failCurrentTest err (w\<lparr>immediates := []\<rparr>))) =
        w\<lparr>immediates := [], failed := failed w @ [tagged err]\<rparr>) \<and>
   (\<not> taggable err \<longrightarrow>
      fst (failCurrentTest err w) = Inl type_error \<and>
      immediates (snd (failCurrentTest err w)) = immediates w \<and>
      unhandled (catch_reaction (Rejected err) w) = unhandled w @ [type_error])"
  by (cases "taggable err")
     (simp_all add: failCurrentTest_taggable failCurrentTest_untaggable
        catch_reaction_taggable catch_reaction_untaggable run_immediate_def)

theorem failCurrentTest_defers_witness:
  "taggable type_error \<and>
   failed (snd (failCurrentTest type_error example_driver)) = [] \<and>
   length (immediates (snd (failCurrentTest type_error example_driver))) = 1 \<and>
   fst (failCurrentTest type_error example_driver) = Inr () \<and>
   unhandled (catch_reaction (Rejected type_error) example_driver) = [] \<and>
   \<not> taggable (Primitive ''boom'') \<and>
   fst (failCurrentTest (Primitive ''boom'') example_driver) = Inl type_error \<and>
   immediates (snd (failCurrentTest (Primitive ''boom'') example_driver)) = [] \<and>
   unhandled (catch_reaction (Rejected (Primitive ''boom'')) example_driver) = [type_error]"
  using failCurrentTest_defers [where err = type_error and w = example_driver]
    failCurrentTest_defers [where err = "Primitive ''boom''" and w = example_driver]
  by (simp add: example_driver_fields taggable_type_error)

end
